theory Spec2Isabelle
  imports Main "HOL-Library.Sublist" "HOL-Library.Word"
begin

section \<open>JavaScript values\<close>

text \<open>
  The data that crosses the host: the AST handed over by \<^verbatim>\<open>op_get_ctx2\<close>, plugin names
  and the arguments of \<^verbatim>\<open>op_add_diagnostic\<close>. Numbers are the unsigned 32-bit integers that
  byte positions and array lengths are. An object is a plain object, with the prototype
  \<^verbatim>\<open>Object.prototype\<close>, given by the association list of its own data properties; where a
  key occurs twice, the first entry is the property. No value is a function.
\<close>

datatype jsval =
    JUndefined
  | JNull
  | JBool bool
  | JNum "32 word"
  | JStr string
  | JObj "(string \<times> jsval) list"

datatype js_error =
    TypeError string
  | ImportError string
  | Thrown jsval

text \<open>The test of \<^verbatim>\<open>if (v)\<close>.\<close>

fun truthy :: "jsval \<Rightarrow> bool" where
  "truthy JUndefined = False"
| "truthy JNull = False"
| "truthy (JBool b) = b"
| "truthy (JNum n) = (n \<noteq> 0)"
| "truthy (JStr s) = (s \<noteq> [])"
| "truthy (JObj ps) = True"

text \<open>
  Property access \<^verbatim>\<open>v.k\<close> for the keys that the host reads, \<^verbatim>\<open>span\<close>, \<^verbatim>\<open>start\<close> and
  \<^verbatim>\<open>end\<close>, which no prototype defines: a TypeError on \<^verbatim>\<open>undefined\<close> and \<^verbatim>\<open>null\<close>, the own
  property of an object, \<^verbatim>\<open>undefined\<close> where there is none.
\<close>

fun get_prop :: "jsval \<Rightarrow> string \<Rightarrow> js_error + jsval" where
  "get_prop JUndefined k =
     Inl (TypeError (''Cannot read properties of undefined (reading '' @ [CHR 0x27] @ k @ [CHR 0x27] @ '')''))"
| "get_prop JNull k =
     Inl (TypeError (''Cannot read properties of null (reading '' @ [CHR 0x27] @ k @ [CHR 0x27] @ '')''))"
| "get_prop (JObj ps) k = Inr (case map_of ps k of None \<Rightarrow> JUndefined | Some v \<Rightarrow> v)"
| "get_prop v k = Inr JUndefined"

text \<open>Decimal digits, for the numbers that template strings print.\<close>

fun digits :: "nat \<Rightarrow> string" where
  "digits n = (if n < 10 then [''0123456789'' ! n] else digits (n div 10) @ [''0123456789'' ! (n mod 10)])"

declare digits.simps [simp del]

text \<open>
  What \<^verbatim>\<open>${v}\<close> gives inside a template string. An object is converted through its
  \<^verbatim>\<open>toString\<close> and then its \<^verbatim>\<open>valueOf\<close>: the inherited \<^verbatim>\<open>toString\<close> gives
  \<^verbatim>\<open>[object Object]\<close>; an own \<^verbatim>\<open>toString\<close> hides it and, being data, cannot be called, after
  which neither an own \<^verbatim>\<open>valueOf\<close> nor the inherited one yields a primitive, and the
  conversion raises a TypeError.
\<close>

fun to_string :: "jsval \<Rightarrow> js_error + string" where
  "to_string JUndefined = Inr ''undefined''"
| "to_string JNull = Inr ''null''"
| "to_string (JBool b) = Inr (if b then ''true'' else ''false'')"
| "to_string (JNum n) = Inr (digits (unat n))"
| "to_string (JStr s) = Inr s"
| "to_string (JObj ps) =
     (case map_of ps ''toString'' of
        None \<Rightarrow> Inr ''[object Object]''
      | Some v \<Rightarrow> Inl (TypeError ''Cannot convert object to primitive value''))"

section \<open>The runtime that plugin code can reach\<close>

text \<open>
  One argument list of \<^verbatim>\<open>op_add_diagnostic(pluginName, message, code, start, end)\<close>, as
  the host passes it.
\<close>

record diagnostic =
  pluginName :: jsval
  message :: jsval
  code :: jsval
  span_start :: jsval
  span_end :: jsval

text \<open>
  A property of the shared \<^verbatim>\<open>context\<close> object is data or a function; a function takes one
  argument and works on the diagnostics collected so far.
\<close>

datatype ctx_value =
    Data jsval
  | Func "jsval \<Rightarrow> diagnostic list \<Rightarrow> js_error + diagnostic list"

datatype printed =
    ConsoleLog "jsval list"
  | CorePrint string

text \<open>
  \<^verbatim>\<open>const context = {}\<close>, the standard output, and the diagnostics that
  \<^verbatim>\<open>op_add_diagnostic\<close> has received.
\<close>

record runtime =
  shared_context :: "(string \<times> ctx_value) list"
  stdout :: "printed list"
  sink :: "diagnostic list"

definition console_log :: "jsval list \<Rightarrow> runtime \<Rightarrow> runtime" where
  "console_log args r = r\<lparr>stdout := stdout r @ [ConsoleLog args]\<rparr>"

definition core_print :: "string \<Rightarrow> runtime \<Rightarrow> runtime" where
  "core_print s r = r\<lparr>stdout := stdout r @ [CorePrint s]\<rparr>"

text \<open>
  Modelled from the spec: the Rust side of \<^verbatim>\<open>Deno.core.ops.op_add_diagnostic\<close> is not among
  the sources. The sink's \<^verbatim>\<open>add\<close> appends the diagnostic; nothing is lost or reordered.
\<close>

definition addDiagnostic :: "jsval \<Rightarrow> jsval \<Rightarrow> jsval \<Rightarrow> jsval \<Rightarrow> jsval \<Rightarrow> runtime \<Rightarrow> runtime" where
  "addDiagnostic n m c s e r =
     r\<lparr>sink := sink r @ [\<lparr>pluginName = n, message = m, code = c, span_start = s, span_end = e\<rparr>]\<rparr>"


section \<open>Plugins\<close>

text \<open>
  What a plugin factory returns. Plugin code runs against the runtime and either returns
  or throws; what it changed before throwing stays changed.
\<close>

record plugin_object =
  name :: jsval
  visitor :: "(string \<times> (jsval \<Rightarrow> runtime \<Rightarrow> (js_error + unit) \<times> runtime)) list"
  onEnd :: "(runtime \<Rightarrow> (js_error + unit) \<times> runtime) option"

text \<open>
  A factory may return nothing at all. Any other non-object value has no own properties
  and reads like an object whose \<^verbatim>\<open>name\<close> is \<^verbatim>\<open>undefined\<close>.
\<close>

datatype plugin_instance =
    PluginUndefined
  | PluginNull
  | PluginObject plugin_object

text \<open>\<^verbatim>\<open>plugin.name\<close>\<close>

fun plugin_name :: "plugin_instance \<Rightarrow> js_error + jsval" where
  "plugin_name PluginUndefined =
     Inl (TypeError (''Cannot read properties of undefined (reading '' @ [CHR 0x27] @ ''name'' @ [CHR 0x27] @ '')''))"
| "plugin_name PluginNull =
     Inl (TypeError (''Cannot read properties of null (reading '' @ [CHR 0x27] @ ''name'' @ [CHR 0x27] @ '')''))"
| "plugin_name (PluginObject p) = Inr (name p)"



subsection \<open>plugins/plugin1.js\<close>

definition plugin1_onEnd :: "runtime \<Rightarrow> (js_error + unit) \<times> runtime" where
  "plugin1_onEnd r =
     (case map_of (shared_context r) ''addDiagnostics'' of
        Some (Func f) \<Rightarrow>
          (case f (JObj [(''filename'', (case map_of (shared_context r) ''filename'' of
                                           Some (Data v) \<Rightarrow> v | _ \<Rightarrow> JUndefined)),
                         (''code'', JStr ''example_plugin''),
                         (''message'', JStr ''Example Plugin diagnostics''),
                         (''location'', JObj [(''start'', JObj [(''line'', JNum 1), (''column'', JNum 1)]),
                                              (''end'', JObj [(''line'', JNum 1), (''column'', JNum 1)])])])
                  (sink r) of
             Inl e \<Rightarrow> (Inl e, r)
           | Inr ds \<Rightarrow> (Inr (), r\<lparr>sink := ds\<rparr>))
      | _ \<Rightarrow> (Inl (TypeError ''context.addDiagnostics is not a function''), r))"

definition plugin1_Program :: "jsval \<Rightarrow> runtime \<Rightarrow> (js_error + unit) \<times> runtime" where
  "plugin1_Program node r = (Inr (), console_log [JStr ''Program'', node] r)"

definition plugin1_object :: plugin_object where
  "plugin1_object =
     \<lparr>name = JStr ''example_plugin1'',
      visitor = [(''Program'', plugin1_Program)],
      onEnd = Some plugin1_onEnd\<rparr>"


section \<open>runtime/plugin_host.js\<close>

text \<open>
  The module's state: \<^verbatim>\<open>const loadedPlugins = []\<close>, which no plugin can reach, beside the
  runtime, which every plugin can.
\<close>

record host =
  loadedPlugins :: "plugin_instance list"
  runtime :: runtime

definition module_loaded :: host where
  "module_loaded =
     \<lparr>loadedPlugins = [],
      runtime = \<lparr>shared_context = [], stdout = [ConsoleLog [JStr ''Hello from plugin_host.js'']], sink = []\<rparr>\<rparr>"



text \<open>
  The loop of \<^verbatim>\<open>hostRequest\<close>, lines 29 to 36: the log line reads \<^verbatim>\<open>plugin.name\<close> and
  converts it to a string, the test reads \<^verbatim>\<open>ast.span\<close>, and the diagnostic has the literal
  span 100, 200. Each of the three can raise, and nothing catches.
\<close>

fun hostRequest_loop ::
  "jsval \<Rightarrow> string \<Rightarrow> plugin_instance list \<Rightarrow> runtime \<Rightarrow> (js_error + unit) \<times> runtime" where
  "hostRequest_loop ast filename [] r = (Inr (), r)"
| "hostRequest_loop ast filename (plugin # rest) r =
     (case plugin_name plugin of
        Inl e \<Rightarrow> (Inl e, r)
      | Inr n \<Rightarrow>
          (case to_string n of
             Inl e \<Rightarrow> (Inl e, r)
           | Inr s \<Rightarrow>
               (let r1 = console_log [JStr (''Running plugin: '' @ s @ '' for '' @ filename)] r
                in case get_prop ast ''span'' of
                     Inl e \<Rightarrow> (Inl e, r1)
                   | Inr sp \<Rightarrow>
                       hostRequest_loop ast filename rest
                         (if truthy sp
                          then addDiagnostic n (JStr ''Example Plugin diagnostics'') JNull (JNum 100) (JNum 200) r1
                          else r1))))"

text \<open>\<^verbatim>\<open>hostRequest\<close>; the AST is what \<^verbatim>\<open>op_get_ctx2\<close> returns.\<close>

definition hostRequest :: "jsval \<Rightarrow> host \<Rightarrow> (js_error + unit) \<times> host" where
  "hostRequest ast h =
     (let filename = ''...'';
          r0 = console_log [JStr (''Got AST for '' @ filename)] (runtime h);
          (res, r) = hostRequest_loop ast filename (loadedPlugins h) r0
      in (res, h\<lparr>runtime := r\<rparr>))"

section \<open>Earlier revisions of the host\<close>

text \<open>
  \<^verbatim>\<open>hostRequest\<close> as it reads where \<^verbatim>\<open>op_get_ctx\<close> hands over \<^verbatim>\<open>{ filename, ast }\<close> and the
  AST is printed with \<^verbatim>\<open>JSON.stringify(ast, undefined, 4)\<close>, here the parameter
  \<open>stringify\<close>. The diagnostic has the literal span 100, 200.
\<close>

fun hostRequest_getCtx_loop ::
  "jsval \<Rightarrow> string \<Rightarrow> plugin_instance list \<Rightarrow> runtime \<Rightarrow> (js_error + unit) \<times> runtime" where
  "hostRequest_getCtx_loop ast filename [] r = (Inr (), r)"
| "hostRequest_getCtx_loop ast filename (plugin # rest) r =
     (case plugin_name plugin of
        Inl e \<Rightarrow> (Inl e, r)
      | Inr n \<Rightarrow>
          (case to_string n of
             Inl e \<Rightarrow> (Inl e, r)
           | Inr s \<Rightarrow>
               (let r1 = core_print (''Running plugin: '' @ s @ '' for '' @ filename @ [CHR 0x0A]) r
                in case get_prop ast ''span'' of
                     Inl e \<Rightarrow> (Inl e, r1)
                   | Inr sp \<Rightarrow>
                       hostRequest_getCtx_loop ast filename rest
                         (if truthy sp
                          then addDiagnostic n (JStr ''Example Plugin diagnostics'') JNull (JNum 100) (JNum 200) r1
                          else r1))))"

definition hostRequest_getCtx ::
  "(jsval \<Rightarrow> string) \<Rightarrow> string \<Rightarrow> jsval \<Rightarrow> host \<Rightarrow> (js_error + unit) \<times> host" where
  "hostRequest_getCtx stringify filename ast h =
     (let r0 = core_print (''Got AST for '' @ filename @ '': '' @ stringify ast @ [CHR 0x0A]) (runtime h);
          (res, r) = hostRequest_getCtx_loop ast filename (loadedPlugins h) r0
      in (res, h\<lparr>runtime := r\<rparr>))"

text \<open>
  \<^verbatim>\<open>hostRequest\<close> as it reads where the diagnostic takes the span of the AST:
  \<^verbatim>\<open>addDiagnostic(plugin.name, "Example Plugin diagnostics", null, ast.span.start, ast.span.end)\<close>.
\<close>

fun hostRequest_span_loop ::
  "jsval \<Rightarrow> string \<Rightarrow> plugin_instance list \<Rightarrow> runtime \<Rightarrow> (js_error + unit) \<times> runtime" where
  "hostRequest_span_loop ast filename [] r = (Inr (), r)"
| "hostRequest_span_loop ast filename (plugin # rest) r =
     (case plugin_name plugin of
        Inl e \<Rightarrow> (Inl e, r)
      | Inr n \<Rightarrow>
          (case to_string n of
             Inl e \<Rightarrow> (Inl e, r)
           | Inr line \<Rightarrow>
               (let r1 = core_print (''Running plugin: '' @ line @ '' for '' @ filename @ [CHR 0x0A]) r
                in case get_prop ast ''span'' of
                     Inl e \<Rightarrow> (Inl e, r1)
                   | Inr sp \<Rightarrow>
                       (if truthy sp
                        then (case get_prop sp ''start'' of
                                Inl e \<Rightarrow> (Inl e, r1)
                              | Inr s \<Rightarrow>
                                  (case get_prop sp ''end'' of
                                     Inl e \<Rightarrow> (Inl e, r1)
                                   | Inr en \<Rightarrow>
                                       hostRequest_span_loop ast filename rest
                                         (addDiagnostic n (JStr ''Example Plugin diagnostics'') JNull s en r1)))
                        else hostRequest_span_loop ast filename rest r1))))"

definition hostRequest_span :: "string \<Rightarrow> jsval \<Rightarrow> host \<Rightarrow> (js_error + unit) \<times> host" where
  "hostRequest_span filename ast h =
     (let (res, r) = hostRequest_span_loop ast filename (loadedPlugins h) (runtime h)
      in (res, h\<lparr>runtime := r\<rparr>))"

subsection \<open>plugin_server.js\<close>


fun serverRequest_loop ::
  "string \<Rightarrow> plugin_instance list \<Rightarrow> runtime \<Rightarrow> (js_error + unit) \<times> runtime" where
  "serverRequest_loop filename [] r = (Inr (), r)"
| "serverRequest_loop filename (plugin # rest) r =
     (case plugin_name plugin of
        Inl e \<Rightarrow> (Inl e, r)
      | Inr n \<Rightarrow>
          (case to_string n of
             Inl e \<Rightarrow> (Inl e, r)
           | Inr s \<Rightarrow>
               serverRequest_loop filename rest
                 (core_print (''Running plugin: '' @ s @ '' for '' @ filename @ [CHR 0x0A]) r)))"

definition serverRequest :: "string \<Rightarrow> host \<Rightarrow> (js_error + unit) \<times> host" where
  "serverRequest filename h =
     (let (res, r) = serverRequest_loop filename (loadedPlugins h) (runtime h)
      in (res, h\<lparr>runtime := r\<rparr>))"



section \<open>Sessions\<close>



section \<open>Vocabulary of the properties\<close>

definition nullish :: "jsval \<Rightarrow> bool" where
  "nullish v = (v = JUndefined \<or> v = JNull)"

fun is_object :: "plugin_instance \<Rightarrow> bool" where
  "is_object (PluginObject p) = True"
| "is_object p = False"

text \<open>
  A loaded plugin that the loop gets past: an object whose \<^verbatim>\<open>name\<close> converts to a string.
\<close>

fun printable_name :: "plugin_instance \<Rightarrow> bool" where
  "printable_name (PluginObject p) = (case to_string (name p) of Inr s \<Rightarrow> True | Inl e \<Rightarrow> False)"
| "printable_name p = False"

text \<open>The value of \<^verbatim>\<open>ast.span\<close> where reading it does not throw.\<close>

definition ast_span :: "jsval \<Rightarrow> jsval" where
  "ast_span ast = (case get_prop ast ''span'' of Inr v \<Rightarrow> v | Inl e \<Rightarrow> JUndefined)"

text \<open>The name that the host reads off a loaded plugin.\<close>

fun name_of :: "plugin_instance \<Rightarrow> jsval" where
  "name_of (PluginObject p) = name p"
| "name_of p = JUndefined"

definition example_diagnostic :: "jsval \<Rightarrow> diagnostic" where
  "example_diagnostic n =
     \<lparr>pluginName = n, message = JStr ''Example Plugin diagnostics'', code = JNull,
      span_start = JNum 100, span_end = JNum 200\<rparr>"

text \<open>A plugin with its callbacks taken away, its visitor table or its finalizer alone.\<close>

fun without_visitor :: "plugin_instance \<Rightarrow> plugin_instance" where
  "without_visitor (PluginObject p) = PluginObject (p\<lparr>visitor := []\<rparr>)"
| "without_visitor p = p"

fun without_onEnd :: "plugin_instance \<Rightarrow> plugin_instance" where
  "without_onEnd (PluginObject p) = PluginObject (p\<lparr>onEnd := None\<rparr>)"
| "without_onEnd p = p"

text \<open>The diagnostics that a call added: what the sink holds beyond what it held before.\<close>

definition emitted :: "host \<Rightarrow> host \<Rightarrow> diagnostic list" where
  "emitted h h' = drop (length (sink (runtime h))) (sink (runtime h'))"

definition empty_runtime :: runtime where
  "empty_runtime = \<lparr>shared_context = [], stdout = [], sink = []\<rparr>"

section \<open>Sample inputs\<close>

definition program_ast :: jsval where
  "program_ast =
     JObj [(''type'', JStr ''Program''),
           (''span'', JObj [(''start'', JNum 0), (''end'', JNum 50)]),
           (''body'', JObj [])]"

definition spanless_ast :: jsval where
  "spanless_ast = JObj [(''type'', JStr ''Program''), (''body'', JObj [])]"

text \<open>A second plugin in the shape of plugin1.js, visiting \<^verbatim>\<open>Program\<close> as well.\<close>

definition plugin2_Program :: "jsval \<Rightarrow> runtime \<Rightarrow> (js_error + unit) \<times> runtime" where
  "plugin2_Program node r =
     (Inr (), addDiagnostic (JStr ''example_plugin2'') (JStr ''X'') JNull (JNum 0) (JNum 50) r)"

definition plugin2_object :: plugin_object where
  "plugin2_object =
     \<lparr>name = JStr ''example_plugin2'', visitor = [(''Program'', plugin2_Program)], onEnd = None\<rparr>"

text \<open>A plugin with a finalizer only; the finalizer prints.\<close>

definition probe_onEnd :: "runtime \<Rightarrow> (js_error + unit) \<times> runtime" where
  "probe_onEnd r = (Inr (), console_log [JStr ''onEnd''] r)"

definition probe_object :: plugin_object where
  "probe_object = \<lparr>name = JStr ''probe'', visitor = [], onEnd = Some probe_onEnd\<rparr>"

text \<open>A plugin whose \<^verbatim>\<open>Program\<close> callback throws.\<close>

definition faulty_Program :: "jsval \<Rightarrow> runtime \<Rightarrow> (js_error + unit) \<times> runtime" where
  "faulty_Program node r = (Inl (Thrown (JStr ''boom'')), r)"

definition faulty_object :: plugin_object where
  "faulty_object = \<lparr>name = JStr ''faulty'', visitor = [(''Program'', faulty_Program)], onEnd = None\<rparr>"


definition nameless_object :: plugin_object where
  "nameless_object = \<lparr>name = JUndefined, visitor = [], onEnd = None\<rparr>"








definition host_with :: "plugin_instance list \<Rightarrow> host" where
  "host_with ps = module_loaded\<lparr>loadedPlugins := ps\<rparr>"

section \<open>Reading the AST and the plugins\<close>

lemma get_prop_span_not_nullish:
  "\<not> nullish ast \<Longrightarrow> get_prop ast ''span'' = Inr (ast_span ast)"
  by (cases ast) (simp_all add: nullish_def ast_span_def)

lemma get_prop_span_nullish:
  "nullish ast \<Longrightarrow> \<exists>e. get_prop ast ''span'' = Inl e"
  by (cases ast) (simp_all add: nullish_def)

lemma printable_name_reads:
  "printable_name p \<Longrightarrow> \<exists>s. plugin_name p = Inr (name_of p) \<and> to_string (name_of p) = Inr s"
  by (cases p) (auto split: sum.splits)

lemma not_printable_name_raises:
  assumes "\<not> printable_name p"
  shows "\<exists>e. (case plugin_name p of Inl e \<Rightarrow> Inl e | Inr n \<Rightarrow> (case to_string n of Inl e \<Rightarrow> Inl e | Inr s \<Rightarrow> Inr s)) = Inl e"
  using assms by (cases p) (auto split: sum.splits)

lemma plugin_name_name_of: "plugin_name p = Inr n \<Longrightarrow> n = name_of p"
  by (cases p) simp_all

section \<open>The loop of hostRequest\<close>

lemma hostRequest_loop_stops:
  "\<not> printable_name p \<Longrightarrow> \<exists>e. hostRequest_loop ast fn (p # ps) r = (Inl e, r)"
  by (cases p) (auto split: sum.splits)

lemma hostRequest_loop_uniform:
  "\<exists>res lines ds. \<forall>r. hostRequest_loop ast fn ps r =
      (res, r\<lparr>stdout := stdout r @ lines, sink := sink r @ ds\<rparr>)"
proof (induction ps)
  case Nil
  have "\<forall>r. hostRequest_loop ast fn [] r = (Inr (), r\<lparr>stdout := stdout r @ [], sink := sink r @ []\<rparr>)"
    by simp
  then show ?case by blast
next
  case (Cons p ps)
  then obtain res lines ds where IH:
    "\<And>r. hostRequest_loop ast fn ps r = (res, r\<lparr>stdout := stdout r @ lines, sink := sink r @ ds\<rparr>)"
    by blast
  show ?case
  proof (cases "printable_name p")
    case False
    then obtain e where "plugin_name p = Inl e \<or> (\<exists>n. plugin_name p = Inr n \<and> to_string n = Inl e)"
      by (cases p) (auto split: sum.splits)
    then have "\<forall>r. hostRequest_loop ast fn (p # ps) r = (Inl e, r\<lparr>stdout := stdout r @ [], sink := sink r @ []\<rparr>)"
      by auto
    then show ?thesis by blast
  next
    case True
    then obtain s where n: "plugin_name p = Inr (name_of p)" and s: "to_string (name_of p) = Inr s"
      using printable_name_reads by blast
    let ?l = "ConsoleLog [JStr (''Running plugin: '' @ s @ '' for '' @ fn)]"
    show ?thesis
    proof (cases "get_prop ast ''span''")
      case (Inl e)
      with n s have "\<forall>r. hostRequest_loop ast fn (p # ps) r = (Inl e, r\<lparr>stdout := stdout r @ [?l], sink := sink r @ []\<rparr>)"
        by (simp add: console_log_def)
      then show ?thesis by blast
    next
      case sp: (Inr sp)
      show ?thesis
      proof (cases "truthy sp")
        case True
        with n s sp have "\<forall>r. hostRequest_loop ast fn (p # ps) r =
           (res, r\<lparr>stdout := stdout r @ (?l # lines), sink := sink r @ (example_diagnostic (name_of p) # ds)\<rparr>)"
          by (simp add: IH console_log_def addDiagnostic_def example_diagnostic_def)
        then show ?thesis by blast
      next
        case False
        with n s sp have "\<forall>r. hostRequest_loop ast fn (p # ps) r =
           (res, r\<lparr>stdout := stdout r @ (?l # lines), sink := sink r @ ds\<rparr>)"
          by (simp add: IH console_log_def)
        then show ?thesis by blast
      qed
    qed
  qed
qed

lemma hostRequest_loop_frame:
  "hostRequest_loop ast fn ps r =
     (fst (hostRequest_loop ast fn ps empty_runtime),
      r\<lparr>stdout := stdout r @ stdout (snd (hostRequest_loop ast fn ps empty_runtime)),
        sink := sink r @ sink (snd (hostRequest_loop ast fn ps empty_runtime))\<rparr>)"
proof -
  obtain res lines ds where U:
    "\<And>r. hostRequest_loop ast fn ps r = (res, r\<lparr>stdout := stdout r @ lines, sink := sink r @ ds\<rparr>)"
    using hostRequest_loop_uniform by blast
  have E: "hostRequest_loop ast fn ps empty_runtime = (res, \<lparr>shared_context = [], stdout = lines, sink = ds\<rparr>)"
    unfolding U [of empty_runtime] by (simp add: empty_runtime_def)
  show ?thesis
    unfolding E by (simp add: U [of r])
qed

lemma hostRequest_loop_sink:
  "sink (snd (hostRequest_loop ast fn ps r)) =
     sink r @ (if \<not> nullish ast \<and> truthy (ast_span ast)
               then map (\<lambda>p. example_diagnostic (name_of p)) (takeWhile printable_name ps)
               else [])"
proof (induction ps arbitrary: r)
  case Nil
  show ?case by simp
next
  case (Cons p ps)
  show ?case
  proof (cases "printable_name p")
    case False
    then obtain e where "hostRequest_loop ast fn (p # ps) r = (Inl e, r)"
      using hostRequest_loop_stops by blast
    with False show ?thesis by simp
  next
    case True
    then obtain s where n: "plugin_name p = Inr (name_of p)" and s: "to_string (name_of p) = Inr s"
      using printable_name_reads by blast
    show ?thesis
    proof (cases "nullish ast")
      case nl: True
      then obtain e where "get_prop ast ''span'' = Inl e" using get_prop_span_nullish by blast
      with n s nl show ?thesis by (simp add: console_log_def)
    next
      case False
      show ?thesis
        using True False
        by (simp add: n s get_prop_span_not_nullish [OF False] Cons.IH console_log_def
            addDiagnostic_def example_diagnostic_def)
    qed
  qed
qed

lemma hostRequest_loop_completes_iff:
  "fst (hostRequest_loop ast fn ps r) = Inr () \<longleftrightarrow>
     ps = [] \<or> (\<not> nullish ast \<and> (\<forall>p \<in> set ps. printable_name p))"
proof (induction ps arbitrary: r)
  case Nil
  show ?case by simp
next
  case (Cons p ps)
  show ?case
  proof (cases "printable_name p")
    case False
    then obtain e where "hostRequest_loop ast fn (p # ps) r = (Inl e, r)"
      using hostRequest_loop_stops by blast
    with False show ?thesis by simp
  next
    case True
    then obtain s where n: "plugin_name p = Inr (name_of p)" and s: "to_string (name_of p) = Inr s"
      using printable_name_reads by blast
    show ?thesis
    proof (cases "nullish ast")
      case nl: True
      then obtain e where "get_prop ast ''span'' = Inl e" using get_prop_span_nullish by blast
      with n s nl show ?thesis by simp
    next
      case False
      show ?thesis
        using True False Cons.IH
        by (auto simp: n s get_prop_span_not_nullish [OF False] Let_def)
    qed
  qed
qed

lemma hostRequest_loop_names:
  "map plugin_name ps = map plugin_name qs \<Longrightarrow>
     hostRequest_loop ast fn ps r = hostRequest_loop ast fn qs r"
proof (induction ps arbitrary: qs r)
  case Nil
  then show ?case by simp
next
  case (Cons p ps)
  then obtain q qs' where qs: "qs = q # qs'" and q: "plugin_name q = plugin_name p"
    and rest: "map plugin_name ps = map plugin_name qs'"
    by (cases qs) auto
  show ?case
    by (simp add: qs q Cons.IH [OF rest] Let_def split: sum.splits)
qed

lemma plugin_name_without_visitor: "map plugin_name (map without_visitor ps) = map plugin_name ps"
proof -
  have "plugin_name (without_visitor p) = plugin_name p" for p by (cases p) simp_all
  then show ?thesis by simp
qed

lemma plugin_name_without_onEnd: "map plugin_name (map without_onEnd ps) = map plugin_name ps"
proof -
  have "plugin_name (without_onEnd p) = plugin_name p" for p by (cases p) simp_all
  then show ?thesis by simp
qed

lemma hostRequest_loop_without_visitor:
  "hostRequest_loop ast fn (map without_visitor ps) r = hostRequest_loop ast fn ps r"
  by (rule hostRequest_loop_names) (rule plugin_name_without_visitor)

lemma hostRequest_loop_without_onEnd:
  "hostRequest_loop ast fn (map without_onEnd ps) r = hostRequest_loop ast fn ps r"
  by (rule hostRequest_loop_names) (rule plugin_name_without_onEnd)


section \<open>hostRequest as a whole\<close>

lemma hostRequest_unfold:
  "hostRequest ast h =
     (fst (hostRequest_loop ast ''...'' (loadedPlugins h) (console_log [JStr ''Got AST for ...''] (runtime h))),
      h\<lparr>runtime := snd (hostRequest_loop ast ''...'' (loadedPlugins h) (console_log [JStr ''Got AST for ...''] (runtime h)))\<rparr>)"
  by (simp add: hostRequest_def Let_def split: prod.splits)


lemma hostRequest_emitted:
  "emitted h (snd (hostRequest ast h)) =
     sink (snd (hostRequest_loop ast ''...'' (loadedPlugins h) empty_runtime))"
proof -
  let ?r0 = "console_log [JStr ''Got AST for ...''] (runtime h)"
  have "sink (snd (hostRequest_loop ast ''...'' (loadedPlugins h) ?r0)) =
        sink ?r0 @ sink (snd (hostRequest_loop ast ''...'' (loadedPlugins h) empty_runtime))"
    by (subst hostRequest_loop_frame) simp
  then show ?thesis
    by (simp add: emitted_def hostRequest_unfold console_log_def)
qed

lemma hostRequest_result:
  "fst (hostRequest ast h) = fst (hostRequest_loop ast ''...'' (loadedPlugins h) empty_runtime)"
  by (simp add: hostRequest_unfold) (subst hostRequest_loop_frame, simp)

lemma hostRequest_emitted_eq:
  "emitted h (snd (hostRequest ast h)) =
     (if \<not> nullish ast \<and> truthy (ast_span ast)
      then map (\<lambda>p. example_diagnostic (name_of p)) (takeWhile printable_name (loadedPlugins h))
      else [])"
  by (simp add: hostRequest_emitted hostRequest_loop_sink empty_runtime_def)

lemma hostRequest_completes_iff:
  "fst (hostRequest ast h) = Inr () \<longleftrightarrow>
     loadedPlugins h = [] \<or> (\<not> nullish ast \<and> (\<forall>p \<in> set (loadedPlugins h). printable_name p))"
  by (simp add: hostRequest_result hostRequest_loop_completes_iff)

lemmas sample_defs =
  host_with_def module_loaded_def program_ast_def spanless_ast_def plugin1_object_def
  plugin2_object_def probe_object_def faulty_object_def nameless_object_def
  console_log_def core_print_def addDiagnostic_def

section \<open>The earlier revisions\<close>








lemma hostRequest_span_loop_emits_node_span:
  assumes "get_prop ast ''span'' = Inr sp" and "truthy sp"
    and "get_prop sp ''start'' = Inr s" and "get_prop sp ''end'' = Inr en"
    and "\<forall>p \<in> set ps. printable_name p"
  shows "fst (hostRequest_span_loop ast fn ps r) = Inr () \<and>
         sink (snd (hostRequest_span_loop ast fn ps r)) =
           sink r @ map (\<lambda>p. \<lparr>pluginName = name_of p, message = JStr ''Example Plugin diagnostics'',
                                code = JNull, span_start = s, span_end = en\<rparr>) ps"
  using assms(5)
proof (induction ps arbitrary: r)
  case Nil
  show ?case by simp
next
  case (Cons p ps)
  then have "printable_name p" and rest: "\<forall>q \<in> set ps. printable_name q"
    by simp_all
  then obtain line where p: "plugin_name p = Inr (name_of p)" and l: "to_string (name_of p) = Inr line"
    using printable_name_reads by blast
  show ?case
    using Cons.IH [OF rest]
    by (simp add: p l assms(1-4) core_print_def addDiagnostic_def)
qed

section \<open>The loop of hostInit\<close>









section \<open>Dispatch of visitor callbacks\<close>

text \<open>
  C1, as the specification has it: analysing a file visits the tree and, at each node,
  invokes every callback registered for the kind of the node, in registration order.
  The host does not: with plugin1.js and a second plugin loaded, both visiting
  \<^verbatim>\<open>Program\<close>, a request on a \<^verbatim>\<open>Program\<close> node completes, the line that the callback of
  plugin1.js prints is not on the standard output, and the sink holds the host's own two
  diagnostics and not the one that the second plugin's callback adds.
\<close>

theorem visitor_callbacks_not_invoked:
  "map_of (visitor plugin1_object) ''Program'' = Some plugin1_Program \<and>
   stdout (snd (plugin1_Program program_ast empty_runtime)) = [ConsoleLog [JStr ''Program'', program_ast]] \<and>
   map_of (visitor plugin2_object) ''Program'' = Some plugin2_Program \<and>
   fst (hostRequest program_ast (host_with [PluginObject plugin1_object, PluginObject plugin2_object])) = Inr () \<and>
   ConsoleLog [JStr ''Program'', program_ast] \<notin>
     set (stdout (runtime (snd (hostRequest program_ast
       (host_with [PluginObject plugin1_object, PluginObject plugin2_object]))))) \<and>
   sink (runtime (snd (hostRequest program_ast
       (host_with [PluginObject plugin1_object, PluginObject plugin2_object])))) =
     [example_diagnostic (JStr ''example_plugin1''), example_diagnostic (JStr ''example_plugin2'')]"
  by (simp add: hostRequest_unfold plugin1_Program_def empty_runtime_def example_diagnostic_def sample_defs)

text \<open>
  C1, amended: \<^verbatim>\<open>hostRequest\<close> walks no tree and invokes no visitor callback: its result
  and the whole runtime after it are the same with every visitor table emptied. It goes
  through the loaded plugins in registration order: the names on the diagnostics it emits
  are always an initial part of the names of the loaded plugins, in that order. Where the
  AST is neither \<^verbatim>\<open>null\<close> nor \<^verbatim>\<open>undefined\<close>, its \<^verbatim>\<open>span\<close> is truthy and every loaded plugin
  is an object whose name converts to a string, the request completes and the names on
  the diagnostics are the names of all the loaded plugins in registration order: the
  diagnostic attributed to A precedes the one attributed to B when A was registered
  before B.
\<close>

theorem hostRequest_registration_order:
  "(\<not> nullish ast \<and> truthy (ast_span ast) \<and> (\<forall>p \<in> set (loadedPlugins h). printable_name p) \<longrightarrow>
      fst (hostRequest ast h) = Inr () \<and>
      map pluginName (emitted h (snd (hostRequest ast h))) = map name_of (loadedPlugins h)) \<and>
   prefix (map pluginName (emitted h (snd (hostRequest ast h)))) (map name_of (loadedPlugins h)) \<and>
   fst (hostRequest ast (h\<lparr>loadedPlugins := map without_visitor (loadedPlugins h)\<rparr>)) = fst (hostRequest ast h) \<and>
   runtime (snd (hostRequest ast (h\<lparr>loadedPlugins := map without_visitor (loadedPlugins h)\<rparr>))) =
     runtime (snd (hostRequest ast h))"
proof -
  have names: "map pluginName (map (\<lambda>p. example_diagnostic (name_of p)) ps) = map name_of ps" for ps
    by (simp add: example_diagnostic_def comp_def)
  have c1: "fst (hostRequest ast h) = Inr () \<and>
      map pluginName (emitted h (snd (hostRequest ast h))) = map name_of (loadedPlugins h)"
    if a: "\<not> nullish ast" and t: "truthy (ast_span ast)" and o: "\<forall>p \<in> set (loadedPlugins h). printable_name p"
  proof -
    have tw: "takeWhile printable_name (loadedPlugins h) = loadedPlugins h"
      using o by (simp add: takeWhile_eq_all_conv)
    have e: "emitted h (snd (hostRequest ast h)) =
        map (\<lambda>p. example_diagnostic (name_of p)) (loadedPlugins h)"
      using a t by (simp add: hostRequest_emitted_eq tw)
    have "fst (hostRequest ast h) = Inr ()"
      using a o by (simp add: hostRequest_completes_iff)
    then show ?thesis by (simp only: e names)
  qed
  have "prefix (map name_of (takeWhile printable_name (loadedPlugins h))) (map name_of (loadedPlugins h))"
    by (metis map_append prefixI takeWhile_dropWhile_id)
  then have c2: "prefix (map pluginName (emitted h (snd (hostRequest ast h)))) (map name_of (loadedPlugins h))"
    by (simp add: hostRequest_emitted_eq names del: map_map)
  have c3: "fst (hostRequest ast (h\<lparr>loadedPlugins := map without_visitor (loadedPlugins h)\<rparr>)) = fst (hostRequest ast h)"
    by (simp add: hostRequest_unfold hostRequest_loop_without_visitor)
  have c4: "runtime (snd (hostRequest ast (h\<lparr>loadedPlugins := map without_visitor (loadedPlugins h)\<rparr>))) =
     runtime (snd (hostRequest ast h))"
    by (simp add: hostRequest_unfold hostRequest_loop_without_visitor)
  from c1 c2 c3 c4 show ?thesis by blast
qed

text \<open>
  The amended C1 at plugin1.js followed by the second plugin, on a \<^verbatim>\<open>Program\<close> node.
\<close>

theorem hostRequest_registration_order_witness:
  "\<not> nullish program_ast \<and> truthy (ast_span program_ast) \<and>
   list_all printable_name (loadedPlugins (host_with [PluginObject plugin1_object, PluginObject plugin2_object])) \<and>
   fst (hostRequest program_ast (host_with [PluginObject plugin1_object, PluginObject plugin2_object])) = Inr () \<and>
   map pluginName (emitted (host_with [PluginObject plugin1_object, PluginObject plugin2_object])
      (snd (hostRequest program_ast (host_with [PluginObject plugin1_object, PluginObject plugin2_object])))) =
     [JStr ''example_plugin1'', JStr ''example_plugin2'']"
proof -
  have a: "\<not> nullish program_ast" by (simp add: nullish_def program_ast_def)
  have t: "truthy (ast_span program_ast)" by (simp add: ast_span_def program_ast_def)
  have o: "\<forall>p \<in> set (loadedPlugins (host_with [PluginObject plugin1_object, PluginObject plugin2_object])). printable_name p"
    by (simp add: host_with_def plugin1_object_def plugin2_object_def)
  have n: "map name_of (loadedPlugins (host_with [PluginObject plugin1_object, PluginObject plugin2_object])) =
      [JStr ''example_plugin1'', JStr ''example_plugin2'']"
    by (simp add: host_with_def plugin1_object_def plugin2_object_def)
  have l: "list_all printable_name (loadedPlugins (host_with [PluginObject plugin1_object, PluginObject plugin2_object]))"
    using o by (simp add: list_all_iff)
  have "fst (hostRequest program_ast (host_with [PluginObject plugin1_object, PluginObject plugin2_object])) = Inr () \<and>
      map pluginName (emitted (host_with [PluginObject plugin1_object, PluginObject plugin2_object])
        (snd (hostRequest program_ast (host_with [PluginObject plugin1_object, PluginObject plugin2_object])))) =
      map name_of (loadedPlugins (host_with [PluginObject plugin1_object, PluginObject plugin2_object]))"
    using hostRequest_registration_order
      [of program_ast "host_with [PluginObject plugin1_object, PluginObject plugin2_object]"] a t o
    by blast
  then have "fst (hostRequest program_ast (host_with [PluginObject plugin1_object, PluginObject plugin2_object])) = Inr () \<and>
      map pluginName (emitted (host_with [PluginObject plugin1_object, PluginObject plugin2_object])
        (snd (hostRequest program_ast (host_with [PluginObject plugin1_object, PluginObject plugin2_object])))) =
      [JStr ''example_plugin1'', JStr ''example_plugin2'']"
    by (simp only: n)
  with a t l show ?thesis by blast
qed

section \<open>Finalizers\<close>

text \<open>
  C2, as the specification has it: every \<^verbatim>\<open>onEnd\<close> callback is invoked exactly once after
  the traversal. The host does not: with a plugin whose \<^verbatim>\<open>onEnd\<close> prints a line, a request
  completes and the line is on the standard output zero times.
\<close>

theorem onEnd_not_invoked:
  "onEnd probe_object = Some probe_onEnd \<and>
   stdout (snd (probe_onEnd empty_runtime)) = [ConsoleLog [JStr ''onEnd'']] \<and>
   fst (hostRequest program_ast (host_with [PluginObject probe_object])) = Inr () \<and>
   count_list (stdout (runtime (snd (hostRequest program_ast (host_with [PluginObject probe_object])))))
     (ConsoleLog [JStr ''onEnd'']) = 0"
  by (simp add: hostRequest_unfold probe_onEnd_def empty_runtime_def sample_defs)

text \<open>
  C2, amended: \<^verbatim>\<open>hostRequest\<close> invokes no \<^verbatim>\<open>onEnd\<close> callback, neither once nor at all: its
  result and the whole runtime after it are the same with every \<^verbatim>\<open>onEnd\<close> taken away.
\<close>

theorem hostRequest_ignores_onEnd:
  "fst (hostRequest ast (h\<lparr>loadedPlugins := map without_onEnd (loadedPlugins h)\<rparr>)) = fst (hostRequest ast h) \<and>
   runtime (snd (hostRequest ast (h\<lparr>loadedPlugins := map without_onEnd (loadedPlugins h)\<rparr>))) =
     runtime (snd (hostRequest ast h))"
  by (simp add: hostRequest_unfold hostRequest_loop_without_onEnd)

section \<open>Faults at run time\<close>




section \<open>Faults at initialization\<close>




section \<open>The shared context\<close>




section \<open>Spans of diagnostics\<close>

text \<open>
  C6: the span of a diagnostic lies within the span of the node that produced it. On a
  \<^verbatim>\<open>Program\<close> node spanning 0 to 50 with plugin1.js loaded, \<^verbatim>\<open>hostRequest\<close> emits a
  diagnostic spanning 100 to 200, outside the node; the revision that reads
  \<^verbatim>\<open>ast.span.start\<close> and \<^verbatim>\<open>ast.span.end\<close> emits 0 to 50 on the same input.
\<close>

theorem fixed_span_outside_node_span:
  "ast_span program_ast = JObj [(''start'', JNum 0), (''end'', JNum 50)] \<and>
   sink (runtime (snd (hostRequest program_ast (host_with [PluginObject plugin1_object])))) =
     [\<lparr>pluginName = JStr ''example_plugin1'', message = JStr ''Example Plugin diagnostics'',
       code = JNull, span_start = JNum 100, span_end = JNum 200\<rparr>] \<and>
   sink (runtime (snd (hostRequest_span ''a.ts'' program_ast (host_with [PluginObject plugin1_object])))) =
     [\<lparr>pluginName = JStr ''example_plugin1'', message = JStr ''Example Plugin diagnostics'',
       code = JNull, span_start = JNum 0, span_end = JNum 50\<rparr>]"
  by (simp add: hostRequest_unfold hostRequest_span_def ast_span_def sample_defs)

section \<open>Determinism\<close>

text \<open>
  C7: the walk is deterministic. Two requests on the same AST with the same loaded
  plugins return the same result and emit the same diagnostics, element for element,
  whatever else differs between the two runtimes, such as what earlier requests printed
  and emitted.
\<close>

theorem hostRequest_deterministic:
  "loadedPlugins h2 = loadedPlugins h1 \<Longrightarrow>
     fst (hostRequest ast h2) = fst (hostRequest ast h1) \<and>
     emitted h2 (snd (hostRequest ast h2)) = emitted h1 (snd (hostRequest ast h1))"
  by (simp add: hostRequest_emitted hostRequest_result)

text \<open>
  C7 at plugin1.js: a request and the same request run again after it.
\<close>

theorem hostRequest_deterministic_witness:
  "loadedPlugins (snd (hostRequest program_ast (host_with [PluginObject plugin1_object]))) =
     loadedPlugins (host_with [PluginObject plugin1_object]) \<and>
   emitted (snd (hostRequest program_ast (host_with [PluginObject plugin1_object])))
     (snd (hostRequest program_ast (snd (hostRequest program_ast (host_with [PluginObject plugin1_object]))))) =
   emitted (host_with [PluginObject plugin1_object])
     (snd (hostRequest program_ast (host_with [PluginObject plugin1_object]))) \<and>
   emitted (host_with [PluginObject plugin1_object])
     (snd (hostRequest program_ast (host_with [PluginObject plugin1_object]))) =
     [example_diagnostic (JStr ''example_plugin1'')]"
proof -
  have same: "loadedPlugins (snd (hostRequest program_ast (host_with [PluginObject plugin1_object]))) =
     loadedPlugins (host_with [PluginObject plugin1_object])"
    by (simp add: hostRequest_unfold)
  have first: "emitted (host_with [PluginObject plugin1_object])
     (snd (hostRequest program_ast (host_with [PluginObject plugin1_object]))) =
     [example_diagnostic (JStr ''example_plugin1'')]"
    by (simp add: hostRequest_unfold emitted_def example_diagnostic_def sample_defs)
  show ?thesis
    using hostRequest_deterministic [OF same, of program_ast] same first by simp
qed

section \<open>No plugins\<close>

text \<open>
  C8: with no plugin registered, a request on any AST returns normally and emits no
  diagnostic; so in every revision of the host and in \<^verbatim>\<open>serverRequest\<close>.
\<close>

theorem zero_plugins_no_diagnostics:
  "loadedPlugins h = [] \<Longrightarrow>
     fst (hostRequest ast h) = Inr () \<and> emitted h (snd (hostRequest ast h)) = [] \<and>
     fst (hostRequest_getCtx stringify filename ast h) = Inr () \<and>
     emitted h (snd (hostRequest_getCtx stringify filename ast h)) = [] \<and>
     fst (hostRequest_span filename ast h) = Inr () \<and>
     emitted h (snd (hostRequest_span filename ast h)) = [] \<and>
     fst (serverRequest filename h) = Inr () \<and>
     emitted h (snd (serverRequest filename h)) = []"
  by (simp add: hostRequest_def hostRequest_getCtx_def hostRequest_span_def serverRequest_def
      emitted_def console_log_def core_print_def)

text \<open>
  C8 at the fresh module, on an AST that is \<^verbatim>\<open>null\<close>.
\<close>

theorem zero_plugins_no_diagnostics_witness:
  "loadedPlugins module_loaded = [] \<and>
   fst (hostRequest JNull module_loaded) = Inr () \<and>
   emitted module_loaded (snd (hostRequest JNull module_loaded)) = [] \<and>
   fst (serverRequest ''a.ts'' module_loaded) = Inr () \<and>
   emitted module_loaded (snd (serverRequest ''a.ts'' module_loaded)) = []"
proof -
  have none: "loadedPlugins module_loaded = []" by (simp add: module_loaded_def)
  show ?thesis
    using zero_plugins_no_diagnostics [OF none, of JNull "\<lambda>v. []" "''a.ts''"] none by simp
qed

section \<open>What a request emits\<close>




section \<open>The list of loaded plugins\<close>



end
